theory Spec2Isabelle
  imports Main
begin

section \<open>JavaScript values of the Apps Script host\<close>

text \<open>
  The repository holds four near-identical Google Apps Script files. Three of them are
  embedded here, each function under its source name with a suffix for its file:
  \<^item> \<open>_trigger\<close>: \<^verbatim>\<open>GOOGLE-APPS-SCRIPT-WEBHOOK-TRIGGER.js\<close> (14-column layout,
    auto Timestamp column first);
  \<^item> \<open>_part000\<close>: \<^verbatim>\<open>unnamed/part_000\<close> (13-column layout);
  \<^item> \<open>_part001\<close>: the second script of \<^verbatim>\<open>unnamed/part_001\<close> (13-column layout,
    the "Email 1 - Invitation" webhook).
  \<open>sendToWebhook\<close> is the same code in every file (the webhook address apart).

  A JavaScript string is a sequence of code units. The model uses \<^typ>\<open>string\<close>, whose
  characters are the code units 0 to 255 (Latin-1); on them \<open>trim\<close> and
  \<open>toLowerCase\<close> below are those of ECMAScript. A number is an integer (of
  magnitude below \<open>10^21\<close>, which is written in decimal digits). A \<open>Date\<close> is
  either valid, with its time value in milliseconds since the epoch (at most
  \<open>8.64 * 10^15\<close> either side of it), or invalid (its time value is NaN, as for a date
  made from a value outside that range), and then \<open>toISOString\<close> throws a RangeError.
\<close>

datatype jsval =
    Undefined
  | Null
  | JBool bool
  | JNum int
  | JStr string
  | JDate int
  | JInvalidDate

datatype error_name = TypeError | RangeError | Exception

datatype js_error = JsError error_name string

fun error_name_string :: "error_name \<Rightarrow> string" where
  "error_name_string TypeError = ''TypeError''"
| "error_name_string RangeError = ''RangeError''"
| "error_name_string Exception = ''Exception''"

text \<open>\<open>Error.prototype.toString\<close>: the name, then the message when there is one.\<close>

fun error_toString :: "js_error \<Rightarrow> string" where
  "error_toString (JsError n m) =
     (if m = [] then error_name_string n else error_name_string n @ '': '' @ m)"

text \<open>What the script cannot compute by itself: the clock, the local rendering of a date,
  the stack of an error and the answer of the network.\<close>

record host =
  now :: int
  dateString :: "int \<Rightarrow> string"
  stack :: "js_error \<Rightarrow> string"
  fetch :: "string \<Rightarrow> string \<Rightarrow> js_error + (int \<times> string)"

definition andThen :: "'e + 'a \<Rightarrow> ('a \<Rightarrow> 'e + 'b) \<Rightarrow> 'e + 'b" where
  "andThen m f = (case m of Inl e \<Rightarrow> Inl e | Inr v \<Rightarrow> f v)"

fun truthy :: "jsval \<Rightarrow> bool" where
  "truthy Undefined = False"
| "truthy Null = False"
| "truthy (JBool b) = b"
| "truthy (JNum n) = (n \<noteq> 0)"
| "truthy (JStr s) = (s \<noteq> [])"
| "truthy (JDate t) = True"
| "truthy JInvalidDate = True"

text \<open>\<open>a || b\<close>\<close>

definition js_or :: "jsval \<Rightarrow> jsval \<Rightarrow> jsval" where
  "js_or a b = (if truthy a then a else b)"

text \<open>\<open>rowData[i]\<close>: a read outside the array is \<open>undefined\<close>.\<close>

definition js_index :: "jsval list \<Rightarrow> int \<Rightarrow> jsval" where
  "js_index xs i = (if 0 \<le> i \<and> nat i < length xs then xs ! nat i else Undefined)"

subsection \<open>Strings\<close>

definition isWhiteSpace :: "char \<Rightarrow> bool" where
  "isWhiteSpace c = (of_char c \<in> {9, 10, 11, 12, 13, 32, 160 :: nat})"

definition trim :: "string \<Rightarrow> string" where
  "trim s = rev (dropWhile isWhiteSpace (rev (dropWhile isWhiteSpace s)))"

definition lowerChar :: "char \<Rightarrow> char" where
  "lowerChar c =
     (let n = of_char c :: nat
      in if (65 \<le> n \<and> n \<le> 90) \<or> (192 \<le> n \<and> n \<le> 222 \<and> n \<noteq> 215)
         then char_of (n + 32) else c)"

definition toLowerCase :: "string \<Rightarrow> string" where
  "toLowerCase s = map lowerChar s"

definition digitChar :: "nat \<Rightarrow> char" where
  "digitChar n = ''0123456789abcdef'' ! n"

fun digits :: "nat \<Rightarrow> string" where
  "digits n = (if n < 10 then [digitChar n] else digits (n div 10) @ [digitChar (n mod 10)])"

definition numberString :: "int \<Rightarrow> string" where
  "numberString n = (if n < 0 then ''-'' @ digits (nat (- n)) else digits (nat n))"

definition pad :: "nat \<Rightarrow> nat \<Rightarrow> string" where
  "pad w n = replicate (w - length (digits n)) (CHR ''0'') @ digits n"

subsection \<open>Dates\<close>

text \<open>The string \<open>Date.prototype.toISOString\<close> returns for a valid time value: the
  proleptic Gregorian date and the time of day in UTC, \<open>YYYY-MM-DDTHH:mm:ss.sssZ\<close>, the
  year with a sign and six digits outside 0..9999. The method itself, which throws on an
  invalid date, is \<open>m_toISOString\<close> below.\<close>

definition yearString :: "int \<Rightarrow> string" where
  "yearString y =
     (if 0 \<le> y \<and> y \<le> 9999 then pad 4 (nat y)
      else (if y < 0 then ''-'' else ''+'') @ pad 6 (nat \<bar>y\<bar>))"

definition toISOString :: "int \<Rightarrow> string" where
  "toISOString t =
     (let day = t div 86400000;
          ms = t mod 86400000;
          z = day + 719468;
          era = z div 146097;
          doe = z mod 146097;
          yoe = (doe - doe div 1460 + doe div 36524 - doe div 146096) div 365;
          doy = doe - (365 * yoe + yoe div 4 - yoe div 100);
          mp = (5 * doy + 2) div 153;
          d = doy - (153 * mp + 2) div 5 + 1;
          m = (if mp < 10 then mp + 3 else mp - 9);
          y = yoe + era * 400 + (if m \<le> 2 then 1 else 0)
      in yearString y @ ''-'' @ pad 2 (nat m) @ ''-'' @ pad 2 (nat d) @ ''T''
         @ pad 2 (nat (ms div 3600000)) @ '':'' @ pad 2 (nat (ms div 60000 mod 60)) @ '':''
         @ pad 2 (nat (ms div 1000 mod 60)) @ ''.'' @ pad 3 (nat (ms mod 1000)) @ ''Z'')"

subsection \<open>Coercions and method calls\<close>

text \<open>The abstract operation ToString, as string concatenation applies it.\<close>

fun js_String :: "host \<Rightarrow> jsval \<Rightarrow> string" where
  "js_String h Undefined = ''undefined''"
| "js_String h Null = ''null''"
| "js_String h (JBool b) = (if b then ''true'' else ''false'')"
| "js_String h (JNum n) = numberString n"
| "js_String h (JStr s) = s"
| "js_String h (JDate t) = dateString h t"
| "js_String h JInvalidDate = ''Invalid Date''"

text \<open>\<open>v.toString()\<close>, \<open>v.trim()\<close> and \<open>v.toLowerCase()\<close>: a method call on
  \<open>undefined\<close> or \<open>null\<close>, or of a method the value does not have, throws a TypeError.\<close>

fun m_toString :: "host \<Rightarrow> jsval \<Rightarrow> js_error + jsval" where
  "m_toString h Undefined =
     Inl (JsError TypeError ''Cannot read properties of undefined (reading 'toString')'')"
| "m_toString h Null =
     Inl (JsError TypeError ''Cannot read properties of null (reading 'toString')'')"
| "m_toString h v = Inr (JStr (js_String h v))"

fun m_trim :: "jsval \<Rightarrow> js_error + jsval" where
  "m_trim Undefined =
     Inl (JsError TypeError ''Cannot read properties of undefined (reading 'trim')'')"
| "m_trim Null =
     Inl (JsError TypeError ''Cannot read properties of null (reading 'trim')'')"
| "m_trim (JStr s) = Inr (JStr (trim s))"
| "m_trim v = Inl (JsError TypeError ''trim is not a function'')"

fun m_toLowerCase :: "jsval \<Rightarrow> js_error + jsval" where
  "m_toLowerCase Undefined =
     Inl (JsError TypeError ''Cannot read properties of undefined (reading 'toLowerCase')'')"
| "m_toLowerCase Null =
     Inl (JsError TypeError ''Cannot read properties of null (reading 'toLowerCase')'')"
| "m_toLowerCase (JStr s) = Inr (JStr (toLowerCase s))"
| "m_toLowerCase v = Inl (JsError TypeError ''toLowerCase is not a function'')"

text \<open>\<open>v instanceof Date\<close>, and \<open>v.toISOString()\<close>, which throws a RangeError on an
  invalid date.\<close>

fun isDate :: "jsval \<Rightarrow> bool" where
  "isDate (JDate t) = True"
| "isDate JInvalidDate = True"
| "isDate v = False"

fun m_toISOString :: "jsval \<Rightarrow> js_error + jsval" where
  "m_toISOString (JDate t) = Inr (JStr (toISOString t))"
| "m_toISOString JInvalidDate = Inl (JsError RangeError ''Invalid time value'')"
| "m_toISOString Undefined =
     Inl (JsError TypeError ''Cannot read properties of undefined (reading 'toISOString')'')"
| "m_toISOString Null =
     Inl (JsError TypeError ''Cannot read properties of null (reading 'toISOString')'')"
| "m_toISOString v = Inl (JsError TypeError ''toISOString is not a function'')"

subsection \<open>JSON\<close>

text \<open>\<open>JSON.stringify\<close> of an object whose properties are primitive values or dates,
  in the order the properties were written; a property whose value is \<open>undefined\<close> is
  left out, a date is written as its ISO string and an invalid date as \<open>null\<close>.\<close>

definition dquote :: char where
  "dquote = CHR 0x22"

definition backslash :: char where
  "backslash = CHR 0x5C"

definition jsonEscape :: "char \<Rightarrow> string" where
  "jsonEscape c =
     (let n = of_char c :: nat
      in if n = 8 then [backslash, CHR ''b'']
         else if n = 9 then [backslash, CHR ''t'']
         else if n = 10 then [backslash, CHR ''n'']
         else if n = 12 then [backslash, CHR ''f'']
         else if n = 13 then [backslash, CHR ''r'']
         else if c = dquote then [backslash, dquote]
         else if c = backslash then [backslash, backslash]
         else if n < 32 then [backslash, CHR ''u'', CHR ''0'', CHR ''0'',
                              digitChar (n div 16), digitChar (n mod 16)]
         else [c])"

definition jsonQuote :: "string \<Rightarrow> string" where
  "jsonQuote s = dquote # concat (map jsonEscape s) @ [dquote]"

fun jsonValue :: "jsval \<Rightarrow> string option" where
  "jsonValue Undefined = None"
| "jsonValue Null = Some ''null''"
| "jsonValue (JBool b) = Some (if b then ''true'' else ''false'')"
| "jsonValue (JNum n) = Some (numberString n)"
| "jsonValue (JStr s) = Some (jsonQuote s)"
| "jsonValue (JDate t) = Some (jsonQuote (toISOString t))"
| "jsonValue JInvalidDate = Some ''null''"

fun jsonMembers :: "(string \<times> jsval) list \<Rightarrow> string list" where
  "jsonMembers [] = []"
| "jsonMembers ((k, v) # kvs) =
     (case jsonValue v of
        None \<Rightarrow> jsonMembers kvs
      | Some j \<Rightarrow> (jsonQuote k @ '':'' @ j) # jsonMembers kvs)"

fun join :: "string \<Rightarrow> string list \<Rightarrow> string" where
  "join sep [] = []"
| "join sep [x] = x"
| "join sep (x # y # ys) = x @ sep @ join sep (y # ys)"

definition JSON_stringify :: "(string \<times> jsval) list \<Rightarrow> string" where
  "JSON_stringify kvs = ''{'' @ join '','' (jsonMembers kvs) @ ''}''"

section \<open>Configuration\<close>

record column_mapping =
  NAME :: int
  EMAIL :: int
  PHONE :: int
  LANGUAGE :: int
  STATUS :: int
  DATE_ADDED :: int
  RESPONSE :: int
  RESPONSE_DATE :: int
  COMMENTS :: int

record column_mapping_forms = column_mapping +
  TIMESTAMP :: int

record column_mapping_leads = column_mapping +
  EMAIL_1_DATE :: int
  EMAIL_2_DATE :: int
  EMAIL_3_DATE :: int
  NOTES :: int

definition COLUMN_MAPPING_trigger :: column_mapping_forms where
  "COLUMN_MAPPING_trigger =
     \<lparr> NAME = 2, EMAIL = 3, PHONE = 4, LANGUAGE = 5, STATUS = 6, DATE_ADDED = 7,
       RESPONSE = 12, RESPONSE_DATE = 13, COMMENTS = 14, TIMESTAMP = 1 \<rparr>"

definition COLUMN_MAPPING_part000 :: column_mapping_leads where
  "COLUMN_MAPPING_part000 =
     \<lparr> NAME = 1, EMAIL = 2, PHONE = 3, LANGUAGE = 4, STATUS = 5, DATE_ADDED = 6,
       RESPONSE = 11, RESPONSE_DATE = 12, COMMENTS = 13,
       EMAIL_1_DATE = 7, EMAIL_2_DATE = 8, EMAIL_3_DATE = 9, NOTES = 10 \<rparr>"

definition COLUMN_MAPPING_part001 :: column_mapping_leads where
  "COLUMN_MAPPING_part001 =
     \<lparr> NAME = 1, EMAIL = 2, PHONE = 3, LANGUAGE = 4, STATUS = 5, DATE_ADDED = 6,
       RESPONSE = 11, RESPONSE_DATE = 12, COMMENTS = 13,
       EMAIL_1_DATE = 7, EMAIL_2_DATE = 8, EMAIL_3_DATE = 9, NOTES = 10 \<rparr>"

definition SHEET_NAME_trigger :: string where
  "SHEET_NAME_trigger = ''Form Responses 1''"

definition SHEET_NAME_part000 :: string where
  "SHEET_NAME_part000 = ''leads''"

definition SHEET_NAME_part001 :: string where
  "SHEET_NAME_part001 = ''leads''"

definition WEBHOOK_URL_trigger :: string where
  "WEBHOOK_URL_trigger = ''https://hook.eu2.make.com/aiflluclc1hiyci8slmm4rex79tfvn5u''"

definition WEBHOOK_URL_part000 :: string where
  "WEBHOOK_URL_part000 = ''https://hook.eu2.make.com/aiflluclc1hiyci8slmm4rex79tfvn5u''"

definition WEBHOOK_URL_part001 :: string where
  "WEBHOOK_URL_part001 = ''https://hook.eu2.make.com/m0i3qbv1dwbh41jd9g9vpek57dqmglnn''"

section \<open>getFormData\<close>

text \<open>The object \<open>data\<close> that \<open>getFormData\<close> returns. A property the object does not
  have reads as \<open>undefined\<close> (\<open>dateAdded\<close> in the 14-column script).\<close>

record formData =
  timestamp :: jsval
  name :: jsval
  email :: jsval
  phone :: jsval
  language :: jsval
  status :: jsval
  dateAdded :: jsval
  response :: jsval
  responseDate :: jsval
  comments :: jsval
  attendance :: jsval

text \<open>\<open>if (data.f) { data.f = data.f.toString().trim() }\<close>, and the same with
  \<open>.toLowerCase()\<close> at the end.\<close>

definition cleanTrim :: "host \<Rightarrow> jsval \<Rightarrow> js_error + jsval" where
  "cleanTrim h v = (if truthy v then andThen (m_toString h v) m_trim else Inr v)"

definition cleanTrimLower :: "host \<Rightarrow> jsval \<Rightarrow> js_error + jsval" where
  "cleanTrimLower h v =
     (if truthy v then andThen (andThen (m_toString h v) m_trim) m_toLowerCase else Inr v)"

text \<open>The 14-column script: the Timestamp column first, then Date Added, then the clock.\<close>

definition timestamp_trigger :: "host \<Rightarrow> jsval list \<Rightarrow> js_error + jsval" where
  "timestamp_trigger h rowData =
     (let t0 = js_index rowData (TIMESTAMP COLUMN_MAPPING_trigger - 1);
          t1 = (if \<not> truthy t0 \<and> truthy (js_index rowData (DATE_ADDED COLUMN_MAPPING_trigger - 1))
                then js_index rowData (DATE_ADDED COLUMN_MAPPING_trigger - 1) else t0);
          t2 = (if \<not> truthy t1 then JDate (now h) else t1)
      in if isDate t2 then m_toISOString t2 else Inr t2)"

definition getFormData_trigger :: "host \<Rightarrow> jsval list \<Rightarrow> js_error + formData" where
  "getFormData_trigger h rowData =
     andThen (timestamp_trigger h rowData) (\<lambda>ts.
     (let cm = COLUMN_MAPPING_trigger;
          data = \<lparr> timestamp = ts,
                   name = js_or (js_index rowData (NAME cm - 1)) (JStr []),
                   email = js_or (js_index rowData (EMAIL cm - 1)) (JStr []),
                   phone = js_or (js_index rowData (PHONE cm - 1)) (JStr []),
                   language = js_or (js_index rowData (LANGUAGE cm - 1)) (JStr ''en''),
                   status = js_or (js_index rowData (STATUS cm - 1)) (JStr []),
                   dateAdded = Undefined,
                   response = js_or (js_index rowData (RESPONSE cm - 1)) (JStr []),
                   responseDate = js_or (js_index rowData (RESPONSE_DATE cm - 1)) (JStr []),
                   comments = js_or (js_index rowData (COMMENTS cm - 1)) (JStr []),
                   attendance = Undefined \<rparr>
      in andThen (cleanTrimLower h (email data)) (\<lambda>e.
         andThen (cleanTrim h (name data)) (\<lambda>n.
         andThen (cleanTrim h (phone data)) (\<lambda>p.
         Inr (data \<lparr> email := e, name := n, phone := p,
                     attendance := js_or (response data) (JStr []) \<rparr>))))))"

text \<open>The script of part_000: Date Added or the clock; a value that is neither a date nor a
  string becomes the clock's time.\<close>

definition timestamp_part000 :: "host \<Rightarrow> jsval list \<Rightarrow> js_error + jsval" where
  "timestamp_part000 h rowData =
     (let t0 = js_index rowData (DATE_ADDED COLUMN_MAPPING_part000 - 1);
          t1 = (if \<not> truthy t0 then JDate (now h) else t0)
      in if isDate t1 then m_toISOString t1
         else case t1 of
                JStr s \<Rightarrow> (if truthy t1 then Inr t1 else Inr (JStr (toISOString (now h))))
              | _ \<Rightarrow> Inr (JStr (toISOString (now h))))"

definition getFormData_part000 :: "host \<Rightarrow> jsval list \<Rightarrow> js_error + formData" where
  "getFormData_part000 h rowData =
     andThen (timestamp_part000 h rowData) (\<lambda>ts.
     (let cm = COLUMN_MAPPING_part000;
          data = \<lparr> timestamp = ts,
                   name = js_or (js_index rowData (NAME cm - 1)) (JStr []),
                   email = js_or (js_index rowData (EMAIL cm - 1)) (JStr []),
                   phone = js_or (js_index rowData (PHONE cm - 1)) (JStr []),
                   language = js_or (js_index rowData (LANGUAGE cm - 1)) (JStr ''en''),
                   status = js_or (js_index rowData (STATUS cm - 1)) (JStr []),
                   dateAdded = js_or (js_index rowData (DATE_ADDED cm - 1)) (JStr []),
                   response = js_or (js_index rowData (RESPONSE cm - 1)) (JStr []),
                   responseDate = js_or (js_index rowData (RESPONSE_DATE cm - 1)) (JStr []),
                   comments = js_or (js_index rowData (COMMENTS cm - 1)) (JStr []),
                   attendance = Undefined \<rparr>
      in andThen (cleanTrimLower h (email data)) (\<lambda>e.
         andThen (cleanTrim h (name data)) (\<lambda>n.
         andThen (cleanTrim h (phone data)) (\<lambda>p.
         Inr (data \<lparr> email := e, name := n, phone := p,
                     attendance := js_or (response data) (JStr []) \<rparr>))))))"

text \<open>The second script of part_001: every field is read as
  \<open>(rowData[i] || d).toString().trim()\<close>; a string that is blank after trimming does not
  count as a Date Added.\<close>

definition timestamp_part001 :: "host \<Rightarrow> jsval list \<Rightarrow> js_error + jsval" where
  "timestamp_part001 h rowData =
     (let t0 = js_index rowData (DATE_ADDED COLUMN_MAPPING_part001 - 1)
      in if isDate t0 then m_toISOString t0
         else case t0 of
                JStr s \<Rightarrow> (if truthy t0 \<and> trim s \<noteq> [] then Inr t0
                           else Inr (JStr (toISOString (now h))))
              | _ \<Rightarrow> Inr (JStr (toISOString (now h))))"

definition field_part001 :: "host \<Rightarrow> jsval list \<Rightarrow> int \<Rightarrow> string \<Rightarrow> js_error + jsval" where
  "field_part001 h rowData col d =
     andThen (m_toString h (js_or (js_index rowData (col - 1)) (JStr d))) m_trim"

definition getFormData_part001 :: "host \<Rightarrow> jsval list \<Rightarrow> js_error + formData" where
  "getFormData_part001 h rowData =
     andThen (timestamp_part001 h rowData) (\<lambda>ts.
     (let cm = COLUMN_MAPPING_part001
      in andThen (field_part001 h rowData (NAME cm) []) (\<lambda>n.
         andThen (field_part001 h rowData (EMAIL cm) []) (\<lambda>e.
         andThen (field_part001 h rowData (PHONE cm) []) (\<lambda>p.
         andThen (andThen (field_part001 h rowData (LANGUAGE cm) ''en'') m_toLowerCase) (\<lambda>l.
         andThen (field_part001 h rowData (STATUS cm) []) (\<lambda>s.
         andThen (field_part001 h rowData (RESPONSE cm) []) (\<lambda>r.
         andThen (field_part001 h rowData (RESPONSE_DATE cm) []) (\<lambda>rd.
         andThen (field_part001 h rowData (COMMENTS cm) []) (\<lambda>c.
         andThen (if truthy e then andThen (m_toLowerCase e) m_trim else Inr e) (\<lambda>e'.
         Inr \<lparr> timestamp = ts,
               name = n, email = e', phone = p, language = l, status = s,
               dateAdded = js_or (js_index rowData (DATE_ADDED cm - 1)) (JStr []),
               response = r, responseDate = rd, comments = c,
               attendance = js_or r (JStr []) \<rparr>)))))))))))"

section \<open>sendToWebhook\<close>

text \<open>What a run does to the outside: a line written with \<open>Logger.log\<close>, or a call of
  \<open>UrlFetchApp.fetch\<close> with the address and the JSON body (always with method
  \<open>post\<close>, content type \<open>application/json\<close> and \<open>muteHttpExceptions\<close>).\<close>

datatype effect = Log string | Fetch string string

text \<open>The object \<open>sendToWebhook\<close> returns; a property it does not set reads as
  \<open>undefined\<close>.\<close>

record deliveryResult =
  success :: bool
  statusCode :: jsval
  response :: jsval
  error :: jsval

definition payload :: "formData \<Rightarrow> (string \<times> jsval) list" where
  "payload data =
     [(''timestamp'', timestamp data),
      (''name'', name data),
      (''email'', email data),
      (''phone'', js_or (phone data) (JStr [])),
      (''language'', js_or (language data) (JStr ''en'')),
      (''status'', js_or (status data) (JStr [])),
      (''attendance'', js_or (js_or (attendance data) (formData.response data)) (JStr [])),
      (''response'', js_or (formData.response data) (JStr [])),
      (''responseDate'', js_or (responseDate data) (JStr [])),
      (''comments'', js_or (comments data) (JStr []))]"

text \<open>The body of the \<open>try\<close> block: \<open>Inl\<close> is an exception on its way to the
  \<open>catch\<close>.\<close>

definition sendToWebhook_try ::
  "host \<Rightarrow> string \<Rightarrow> formData \<Rightarrow> effect list \<times> (js_error + deliveryResult)" where
  "sendToWebhook_try h url data =
     (let body = JSON_stringify (payload data)
      in ([Fetch url body],
          case fetch h url body of
            Inl err \<Rightarrow> Inl err
          | Inr (responseCode, responseText) \<Rightarrow>
              if 200 \<le> responseCode \<and> responseCode < 300
              then Inr \<lparr> success = True, statusCode = JNum responseCode,
                         response = JStr responseText, error = Undefined \<rparr>
              else Inr \<lparr> success = False, statusCode = JNum responseCode,
                         response = Undefined, error = JStr responseText \<rparr>))"

definition sendToWebhook ::
  "host \<Rightarrow> string \<Rightarrow> formData \<Rightarrow> effect list \<times> (js_error + deliveryResult)" where
  "sendToWebhook h url data =
     (case sendToWebhook_try h url data of
        (tr, Inl err) \<Rightarrow>
          (tr, Inr \<lparr> success = False, statusCode = Undefined, response = Undefined,
                     error = JStr (error_toString err) \<rparr>)
      | (tr, Inr r) \<Rightarrow> (tr, Inr r))"

section \<open>The spreadsheet\<close>

text \<open>A sheet is its rows of cells; a cell outside the stored rows is empty. The event of
  a trigger carries the spreadsheet as \<open>source\<close>; a run from the editor has no event.\<close>

type_synonym sheet = "jsval list list"

type_synonym spreadsheet = "(string \<times> sheet) list"

record event =
  source :: "spreadsheet option"

definition getSheetByName :: "spreadsheet \<Rightarrow> string \<Rightarrow> sheet option" where
  "getSheetByName ss n = map_of ss n"

definition getSheetNames :: "spreadsheet \<Rightarrow> string list" where
  "getSheetNames ss = map fst ss"

definition getLastRow :: "sheet \<Rightarrow> int" where
  "getLastRow sh = int (length sh)"

definition getLastColumn :: "sheet \<Rightarrow> int" where
  "getLastColumn sh = int (foldr max (map length sh) 0)"

definition cellAt :: "sheet \<Rightarrow> nat \<Rightarrow> nat \<Rightarrow> jsval" where
  "cellAt sh i j = (if i < length sh \<and> j < length (sh ! i) then sh ! i ! j else JStr [])"

text \<open>\<open>sheet.getRange(row, column, numRows, numColumns).getValues()\<close>\<close>

definition getRangeValues :: "sheet \<Rightarrow> int \<Rightarrow> int \<Rightarrow> int \<Rightarrow> int \<Rightarrow> js_error + jsval list list" where
  "getRangeValues sh row col numRows numColumns =
     (if row < 1 then Inl (JsError Exception ''The starting row of the range is too small.'')
      else if col < 1
        then Inl (JsError Exception ''The starting column of the range is too small.'')
      else if numRows < 1
        then Inl (JsError Exception ''The number of rows in the range must be at least 1.'')
      else if numColumns < 1
        then Inl (JsError Exception ''The number of columns in the range must be at least 1.'')
      else Inr (map (\<lambda>i. map (\<lambda>j. cellAt sh i j) [nat col - 1 ..< nat col - 1 + nat numColumns])
                    [nat row - 1 ..< nat row - 1 + nat numRows]))"

text \<open>\<open>values[0]\<close>, handed to \<open>getFormData\<close>, whose first read of \<open>rowData[i]\<close> throws
  when there is no such row.\<close>

definition firstRow :: "jsval list list \<Rightarrow> js_error + jsval list" where
  "firstRow values =
     (case values of
        [] \<Rightarrow> Inl (JsError TypeError ''Cannot read properties of undefined'')
      | rowData # _ \<Rightarrow> Inr rowData)"

section \<open>onFormSubmit\<close>

text \<open>\<open>!formData.email || formData.email.trim() === ''\<close>\<close>

definition emailMissing :: "formData \<Rightarrow> js_error + bool" where
  "emailMissing data =
     (if \<not> truthy (email data) then Inr True
      else andThen (m_trim (email data)) (\<lambda>v. Inr (v = JStr [])))"

text \<open>Each handler is a \<open>try\<close> block and its \<open>catch\<close>. The block yields the effects so
  far and either returns or throws.\<close>

definition onFormSubmit_trigger_try ::
  "host \<Rightarrow> event option \<Rightarrow> effect list \<times> (js_error + unit)" where
  "onFormSubmit_trigger_try h e =
     (case e of
        None \<Rightarrow>
          ([], Inl (JsError TypeError ''Cannot read properties of undefined (reading 'source')''))
      | Some ev \<Rightarrow>
     (case source ev of
        None \<Rightarrow>
          ([], Inl (JsError TypeError
                 ''Cannot read properties of undefined (reading 'getSheetByName')''))
      | Some ss \<Rightarrow>
     (case getSheetByName ss SHEET_NAME_trigger of
        None \<Rightarrow>
          ([Log (''Error: Sheet '' @ [dquote] @ SHEET_NAME_trigger @ [dquote] @ '' not found'')],
           Inr ())
      | Some sh \<Rightarrow>
     (case andThen (getRangeValues sh (getLastRow sh) 1 1 (getLastColumn sh)) firstRow of
        Inl err \<Rightarrow> ([], Inl err)
      | Inr rowData \<Rightarrow>
     (case getFormData_trigger h rowData of
        Inl err \<Rightarrow> ([], Inl err)
      | Inr data \<Rightarrow>
     (case emailMissing data of
        Inl err \<Rightarrow> ([], Inl err)
      | Inr True \<Rightarrow> ([Log ''Error: Email is required but not found''], Inr ())
      | Inr False \<Rightarrow>
     (case sendToWebhook h WEBHOOK_URL_trigger data of
        (tr, Inl err) \<Rightarrow> (tr, Inl err)
      | (tr, Inr r) \<Rightarrow>
          (tr @ [Log (if success r
                      then ''Successfully sent data to webhook for: '' @ js_String h (email data)
                      else ''Error sending to webhook: '' @ js_String h (error r))],
           Inr ()))))))))"

definition onFormSubmit_trigger ::
  "host \<Rightarrow> event option \<Rightarrow> effect list \<times> (js_error + unit)" where
  "onFormSubmit_trigger h e =
     (case onFormSubmit_trigger_try h e of
        (tr, Inl err) \<Rightarrow> (tr @ [Log (''Error in onFormSubmit: '' @ error_toString err)], Inr ())
      | (tr, Inr u) \<Rightarrow> (tr, Inr u))"

text \<open>part_000 checks the event first.\<close>

definition onFormSubmit_part000_try ::
  "host \<Rightarrow> event option \<Rightarrow> effect list \<times> (js_error + unit)" where
  "onFormSubmit_part000_try h e =
     (case (case e of None \<Rightarrow> None | Some ev \<Rightarrow> source ev) of
        None \<Rightarrow>
          ([Log ''Error: This function must be triggered by a form submission.'',
            Log ''To test manually, use testLastRow() or testWebhook() functions instead.''],
           Inr ())
      | Some ss \<Rightarrow>
     (case getSheetByName ss SHEET_NAME_part000 of
        None \<Rightarrow>
          ([Log (''Error: Sheet '' @ [dquote] @ SHEET_NAME_part000 @ [dquote] @ '' not found'')],
           Inr ())
      | Some sh \<Rightarrow>
     (case andThen (getRangeValues sh (getLastRow sh) 1 1 (getLastColumn sh)) firstRow of
        Inl err \<Rightarrow> ([], Inl err)
      | Inr rowData \<Rightarrow>
     (case getFormData_part000 h rowData of
        Inl err \<Rightarrow> ([], Inl err)
      | Inr data \<Rightarrow>
     (case emailMissing data of
        Inl err \<Rightarrow> ([], Inl err)
      | Inr True \<Rightarrow> ([Log ''Error: Email is required but not found''], Inr ())
      | Inr False \<Rightarrow>
     (case sendToWebhook h WEBHOOK_URL_part000 data of
        (tr, Inl err) \<Rightarrow> (tr, Inl err)
      | (tr, Inr r) \<Rightarrow>
          (tr @ [Log (if success r
                      then ''Successfully sent data to webhook for: '' @ js_String h (email data)
                      else ''Error sending to webhook: '' @ js_String h (error r))],
           Inr ())))))))"

definition onFormSubmit_part000 ::
  "host \<Rightarrow> event option \<Rightarrow> effect list \<times> (js_error + unit)" where
  "onFormSubmit_part000 h e =
     (case onFormSubmit_part000_try h e of
        (tr, Inl err) \<Rightarrow> (tr @ [Log (''Error in onFormSubmit: '' @ error_toString err)], Inr ())
      | (tr, Inr u) \<Rightarrow> (tr, Inr u))"

text \<open>The second script of part_001 also stops on a sheet with no data row. Its messages
  start with a mark (a cross, a tick or an arrow, code units above 255) and a space, which
  the lines below leave out.\<close>

definition onFormSubmit_part001_try ::
  "host \<Rightarrow> event option \<Rightarrow> effect list \<times> (js_error + unit)" where
  "onFormSubmit_part001_try h e =
     (case (case e of None \<Rightarrow> None | Some ev \<Rightarrow> source ev) of
        None \<Rightarrow>
          ([Log ''Error: This function must be triggered by a form submission.'',
            Log ''To test manually, use testLastRow() or testWebhook() functions instead.''],
           Inr ())
      | Some ss \<Rightarrow>
     (case getSheetByName ss SHEET_NAME_part001 of
        None \<Rightarrow>
          ([Log (''Error: Sheet '' @ [dquote] @ SHEET_NAME_part001 @ [dquote] @ '' not found''),
            Log (''Available sheets: '' @ join '', '' (getSheetNames ss))],
           Inr ())
      | Some sh \<Rightarrow>
     (if getLastRow sh < 2
      then ([Log ''Error: No data rows found (only header row exists)''], Inr ())
      else
     (case andThen (getRangeValues sh (getLastRow sh) 1 1 (getLastColumn sh)) firstRow of
        Inl err \<Rightarrow> ([], Inl err)
      | Inr rowData \<Rightarrow>
     (case getFormData_part001 h rowData of
        Inl err \<Rightarrow> ([], Inl err)
      | Inr data \<Rightarrow>
     (case emailMissing data of
        Inl err \<Rightarrow> ([], Inl err)
      | Inr True \<Rightarrow>
          ([Log (''Error: Email is required but not found in row ''
                 @ numberString (getLastRow sh))],
           Inr ())
      | Inr False \<Rightarrow>
     (case sendToWebhook h WEBHOOK_URL_part001 data of
        (tr, Inl err) \<Rightarrow>
          (Log (''Sending data to webhook for: '' @ js_String h (email data)) # tr, Inl err)
      | (tr, Inr r) \<Rightarrow>
          (Log (''Sending data to webhook for: '' @ js_String h (email data)) # tr
           @ (if success r
              then [Log ''Successfully sent data to webhook!'',
                    Log (''Status code: '' @ js_String h (statusCode r)),
                    Log ''Check Make.com for the execution.'']
              else [Log ''Error sending to webhook'',
                    Log (''Status code: '' @ js_String h (statusCode r)),
                    Log (''Error: '' @ js_String h (js_or (error r) (JStr ''Unknown error'')))]),
           Inr ()))))))))"

definition onFormSubmit_part001 ::
  "host \<Rightarrow> event option \<Rightarrow> effect list \<times> (js_error + unit)" where
  "onFormSubmit_part001 h e =
     (case onFormSubmit_part001_try h e of
        (tr, Inl err) \<Rightarrow>
          (tr @ [Log (''Error in onFormSubmit: '' @ error_toString err),
                 Log (''Stack trace: '' @ stack h err)],
           Inr ())
      | (tr, Inr u) \<Rightarrow> (tr, Inr u))"

text \<open>The webhook calls of a run.\<close>

fun isFetch :: "effect \<Rightarrow> bool" where
  "isFetch (Fetch url body) = True"
| "isFetch (Log line) = False"

definition webhookCalls :: "effect list \<Rightarrow> effect list" where
  "webhookCalls tr = filter isFetch tr"

section \<open>Notions for the properties\<close>

text \<open>A cell with no address to send to: absent from the row, empty, or white space only.\<close>

fun blankCell :: "jsval \<Rightarrow> bool" where
  "blankCell Undefined = True"
| "blankCell (JStr s) = (trim s = [])"
| "blankCell v = False"

text \<open>The row a handler reads: the last row of the sheet, over all its columns.\<close>

definition rowDataOf :: "sheet \<Rightarrow> js_error + jsval list" where
  "rowDataOf sh = andThen (getRangeValues sh (getLastRow sh) 1 1 (getLastColumn sh)) firstRow"

text \<open>A host for the examples: the clock at 2023-11-14T22:13:20Z, an endpoint that answers
  200 \<open>OK\<close>.\<close>

definition exampleHost :: host where
  "exampleHost =
     \<lparr> now = 1700000000000, dateString = (\<lambda>t. ''Tue Nov 14 2023''),
       stack = (\<lambda>e. []), fetch = (\<lambda>url body. Inr (200, ''OK'')) \<rparr>"

text \<open>The object \<open>testData\<close> of \<open>testWebhook\<close>.\<close>

definition testData :: "host \<Rightarrow> formData" where
  "testData h =
     \<lparr> timestamp = JStr (toISOString (now h)),
       name = JStr ''Test User'',
       email = JStr ''test@example.com'',
       phone = JStr ''+968 1234 5678'',
       language = JStr ''en'',
       status = JStr [],
       dateAdded = Undefined,
       response = JStr ''Yes, I'll attend'',
       responseDate = JStr [],
       comments = JStr ''This is a test submission'',
       attendance = JStr ''Yes, I'll attend'' \<rparr>"

text \<open>\<open>if (timestamp instanceof Date) timestamp = timestamp.toISOString()\<close>, for a
  value that is not an invalid date.\<close>

fun formatIfDate :: "jsval \<Rightarrow> jsval" where
  "formatIfDate (JDate t) = JStr (toISOString t)"
| "formatIfDate v = v"

text \<open>A cell read with its default: the default where the cell is falsy, then the string
  of the value, trimmed.\<close>

definition normalized :: "host \<Rightarrow> jsval \<Rightarrow> string \<Rightarrow> string" where
  "normalized h cell d = trim (js_String h (js_or cell (JStr d)))"


text \<open>A row of the 13-column layout.\<close>

definition exampleRow :: "jsval list" where
  "exampleRow =
     [JStr '' Test User '', JStr ''  Test@Example.COM '', JNum 0, JStr ''  '', JStr '' new '',
      JDate 0, JStr [], JStr [], JStr [], JStr [], JStr ''Yes, I'll attend'', JStr [],
      JStr ''See you''  ]"

text \<open>A row of the 14-column layout, with a Timestamp and a later Date Added.\<close>

definition formsRow :: "jsval list" where
  "formsRow =
     [JDate 0, JStr ''Test User'', JStr ''test@example.com'', JStr [], JStr ''AR'',
      JStr ''  Sent '', JDate 86400000]"

text \<open>A row of the 13-column layout whose Language and Date Added cells are two spaces.\<close>

definition blankDateRow :: "jsval list" where
  "blankDateRow =
     [JStr ''Test User'', JStr ''test@example.com'', JStr [], JStr ''  '', JStr [], JStr ''  '']"


text \<open>A row of the 14-column layout with no Timestamp and a Date Added written as text;
  its tail is a row of the 13-column layout.\<close>

definition textDateRow :: "jsval list" where
  "textDateRow =
     [JStr [], JStr ''Test User'', JStr ''test@example.com'', JStr [], JStr [], JStr [],
      JStr ''2024-01-15'']"



section \<open>Strings: trimming and lower case\<close>

lemma isWhiteSpace_lowerChar: "isWhiteSpace (lowerChar c) = isWhiteSpace c"
proof -
  define n :: nat where "n = of_char c"
  show ?thesis
  proof (cases "(65 \<le> n \<and> n \<le> 90) \<or> (192 \<le> n \<and> n \<le> 222 \<and> n \<noteq> 215)")
    case True
    then have lt: "n + 32 < 256" by arith
    have l: "lowerChar c = char_of (n + 32)"
      using True by (simp add: lowerChar_def n_def)
    have "of_char (lowerChar c) = n + 32"
      using lt by (simp add: l)
    then show ?thesis
      using True unfolding isWhiteSpace_def n_def [symmetric] by auto
  next
    case False
    then have "lowerChar c = c"
      unfolding lowerChar_def n_def by (auto simp: Let_def)
    then show ?thesis by simp
  qed
qed

lemma dropWhile_toLowerCase:
  "dropWhile isWhiteSpace (toLowerCase s) = toLowerCase (dropWhile isWhiteSpace s)"
  by (induction s) (simp_all add: toLowerCase_def isWhiteSpace_lowerChar)

lemma toLowerCase_rev: "toLowerCase (rev s) = rev (toLowerCase s)"
  by (simp add: toLowerCase_def rev_map)

lemma trim_toLowerCase: "trim (toLowerCase s) = toLowerCase (trim s)"
  by (simp add: trim_def dropWhile_toLowerCase toLowerCase_rev [symmetric])

lemma dropWhile_twice: "dropWhile P (dropWhile P xs) = dropWhile P xs"
  by (induction xs) simp_all

lemma dropWhile_keeps_head:
  assumes "xs = [] \<or> \<not> P (hd xs)"
  shows "dropWhile P (rev (dropWhile P (rev xs))) = rev (dropWhile P (rev xs))"
proof (cases xs)
  case Nil
  then show ?thesis by simp
next
  case (Cons x ys)
  with assms have nx: "\<not> P x" by simp
  have "dropWhile P (rev ys @ [x]) = dropWhile P (rev ys) @ [x]"
    using nx by (simp add: dropWhile_append3)
  then show ?thesis using Cons nx by simp
qed

lemma dropWhile_head: "dropWhile P xs = [] \<or> \<not> P (hd (dropWhile P xs))"
  using hd_dropWhile [of P xs] by blast

lemma trim_trim: "trim (trim s) = trim s"
  unfolding trim_def
  by (simp add: dropWhile_keeps_head [OF dropWhile_head] dropWhile_twice)

lemma trim_Nil: "trim [] = []"
  by (simp add: trim_def)

lemma toLowerCase_Nil: "toLowerCase [] = []"
  by (simp add: toLowerCase_def)

section \<open>The result of getFormData in closed form\<close>

lemma m_toString_js_or:
  "m_toString h (js_or v (JStr d)) = Inr (JStr (js_String h (js_or v (JStr d))))"
  by (cases v) (simp_all add: js_or_def)

lemma field_part001_eq:
  "field_part001 h rowData col d =
     Inr (JStr (trim (js_String h (js_or (js_index rowData (col - 1)) (JStr d)))))"
  by (simp add: field_part001_def m_toString_js_or andThen_def)

lemma cleanTrim_js_or:
  "cleanTrim h (js_or v (JStr [])) =
     Inr (if truthy v then JStr (trim (js_String h v)) else JStr [])"
  by (cases v) (simp_all add: cleanTrim_def js_or_def andThen_def)

lemma cleanTrimLower_js_or:
  "cleanTrimLower h (js_or v (JStr [])) =
     Inr (if truthy v then JStr (toLowerCase (trim (js_String h v))) else JStr [])"
  by (cases v) (simp_all add: cleanTrimLower_def js_or_def andThen_def)

lemma js_index_valid: "JInvalidDate \<notin> set xs \<Longrightarrow> js_index xs i \<noteq> JInvalidDate"
  by (auto simp: js_index_def dest: nth_mem)

lemma timestamp_trigger_cells:
  "js_index rowData 0 \<noteq> JInvalidDate \<Longrightarrow> js_index rowData 6 \<noteq> JInvalidDate \<Longrightarrow>
   timestamp_trigger h rowData =
     Inr (formatIfDate (if truthy (js_index rowData 0) then js_index rowData 0
                     else if truthy (js_index rowData 6) then js_index rowData 6
                     else JDate (now h)))"
  by (cases "js_index rowData 0"; cases "js_index rowData 6")
    (simp_all add: timestamp_trigger_def COLUMN_MAPPING_trigger_def Let_def)

lemma timestamp_trigger_eq:
  "JInvalidDate \<notin> set rowData \<Longrightarrow>
   timestamp_trigger h rowData =
     Inr (formatIfDate (if truthy (js_index rowData 0) then js_index rowData 0
                     else if truthy (js_index rowData 6) then js_index rowData 6
                     else JDate (now h)))"
  by (simp add: timestamp_trigger_cells js_index_valid)


lemma timestamp_part001_cell:
  "js_index rowData 5 \<noteq> JInvalidDate \<Longrightarrow>
   timestamp_part001 h rowData =
     Inr (case js_index rowData 5 of
        JDate t \<Rightarrow> JStr (toISOString t)
      | JStr s \<Rightarrow> if trim s \<noteq> [] then JStr s else JStr (toISOString (now h))
      | _ \<Rightarrow> JStr (toISOString (now h)))"
  by (cases "js_index rowData 5")
    (simp_all add: timestamp_part001_def COLUMN_MAPPING_part001_def Let_def trim_Nil)

lemma timestamp_part001_cases:
  "JInvalidDate \<notin> set rowData \<Longrightarrow>
   timestamp_part001 h rowData =
     Inr (case js_index rowData 5 of
        JDate t \<Rightarrow> JStr (toISOString t)
      | JStr s \<Rightarrow> if trim s \<noteq> [] then JStr s else JStr (toISOString (now h))
      | _ \<Rightarrow> JStr (toISOString (now h)))"
  by (simp add: timestamp_part001_cell js_index_valid)


lemma getFormData_trigger_Inl:
  "timestamp_trigger h rowData = Inl e \<Longrightarrow> getFormData_trigger h rowData = Inl e"
  by (simp add: getFormData_trigger_def andThen_def)

lemma getFormData_trigger_Inr:
  "timestamp_trigger h rowData = Inr ts \<Longrightarrow>
   getFormData_trigger h rowData =
     Inr \<lparr> timestamp = ts,
           name = (let v = js_index rowData 1
                   in if truthy v then JStr (trim (js_String h v)) else JStr []),
           email = (let v = js_index rowData 2
                    in if truthy v then JStr (toLowerCase (trim (js_String h v))) else JStr []),
           phone = (let v = js_index rowData 3
                    in if truthy v then JStr (trim (js_String h v)) else JStr []),
           language = js_or (js_index rowData 4) (JStr ''en''),
           status = js_or (js_index rowData 5) (JStr []),
           dateAdded = Undefined,
           response = js_or (js_index rowData 11) (JStr []),
           responseDate = js_or (js_index rowData 12) (JStr []),
           comments = js_or (js_index rowData 13) (JStr []),
           attendance = js_or (js_or (js_index rowData 11) (JStr [])) (JStr []) \<rparr>"
  by (simp add: getFormData_trigger_def COLUMN_MAPPING_trigger_def Let_def
      cleanTrim_js_or cleanTrimLower_js_or andThen_def)

lemma getFormData_trigger_eq:
  "JInvalidDate \<notin> set rowData \<Longrightarrow>
   getFormData_trigger h rowData =
     Inr \<lparr> timestamp = formatIfDate (if truthy (js_index rowData 0) then js_index rowData 0
                     else if truthy (js_index rowData 6) then js_index rowData 6
                     else JDate (now h)),
           name = (let v = js_index rowData 1
                   in if truthy v then JStr (trim (js_String h v)) else JStr []),
           email = (let v = js_index rowData 2
                    in if truthy v then JStr (toLowerCase (trim (js_String h v))) else JStr []),
           phone = (let v = js_index rowData 3
                    in if truthy v then JStr (trim (js_String h v)) else JStr []),
           language = js_or (js_index rowData 4) (JStr ''en''),
           status = js_or (js_index rowData 5) (JStr []),
           dateAdded = Undefined,
           response = js_or (js_index rowData 11) (JStr []),
           responseDate = js_or (js_index rowData 12) (JStr []),
           comments = js_or (js_index rowData 13) (JStr []),
           attendance = js_or (js_or (js_index rowData 11) (JStr [])) (JStr []) \<rparr>"
  by (rule getFormData_trigger_Inr) (rule timestamp_trigger_eq)

lemma getFormData_part001_Inl:
  "timestamp_part001 h rowData = Inl e \<Longrightarrow> getFormData_part001 h rowData = Inl e"
  by (simp add: getFormData_part001_def andThen_def)

lemma getFormData_part001_Inr:
  "timestamp_part001 h rowData = Inr ts \<Longrightarrow>
   getFormData_part001 h rowData =
     Inr \<lparr> timestamp = ts,
           name = JStr (trim (js_String h (js_or (js_index rowData 0) (JStr [])))),
           email = JStr (toLowerCase (trim (js_String h (js_or (js_index rowData 1) (JStr []))))),
           phone = JStr (trim (js_String h (js_or (js_index rowData 2) (JStr [])))),
           language =
             JStr (toLowerCase (trim (js_String h (js_or (js_index rowData 3) (JStr ''en''))))),
           status = JStr (trim (js_String h (js_or (js_index rowData 4) (JStr [])))),
           dateAdded = js_or (js_index rowData 5) (JStr []),
           response = JStr (trim (js_String h (js_or (js_index rowData 10) (JStr [])))),
           responseDate = JStr (trim (js_String h (js_or (js_index rowData 11) (JStr [])))),
           comments = JStr (trim (js_String h (js_or (js_index rowData 12) (JStr [])))),
           attendance =
             js_or (JStr (trim (js_String h (js_or (js_index rowData 10) (JStr []))))) (JStr []) \<rparr>"
  by (simp add: getFormData_part001_def COLUMN_MAPPING_part001_def Let_def field_part001_eq
      andThen_def trim_toLowerCase trim_trim toLowerCase_Nil)

lemma getFormData_part001_eq:
  "JInvalidDate \<notin> set rowData \<Longrightarrow>
   getFormData_part001 h rowData =
     Inr \<lparr> timestamp = (case js_index rowData 5 of
        JDate t \<Rightarrow> JStr (toISOString t)
      | JStr s \<Rightarrow> if trim s \<noteq> [] then JStr s else JStr (toISOString (now h))
      | _ \<Rightarrow> JStr (toISOString (now h))),
           name = JStr (trim (js_String h (js_or (js_index rowData 0) (JStr [])))),
           email = JStr (toLowerCase (trim (js_String h (js_or (js_index rowData 1) (JStr []))))),
           phone = JStr (trim (js_String h (js_or (js_index rowData 2) (JStr [])))),
           language =
             JStr (toLowerCase (trim (js_String h (js_or (js_index rowData 3) (JStr ''en''))))),
           status = JStr (trim (js_String h (js_or (js_index rowData 4) (JStr [])))),
           dateAdded = js_or (js_index rowData 5) (JStr []),
           response = JStr (trim (js_String h (js_or (js_index rowData 10) (JStr [])))),
           responseDate = JStr (trim (js_String h (js_or (js_index rowData 11) (JStr [])))),
           comments = JStr (trim (js_String h (js_or (js_index rowData 12) (JStr [])))),
           attendance =
             js_or (JStr (trim (js_String h (js_or (js_index rowData 10) (JStr []))))) (JStr []) \<rparr>"
  by (rule getFormData_part001_Inr) (rule timestamp_part001_cases)

section \<open>A blank email stops the handler\<close>

text \<open>The \<open>catch\<close> of a handler adds log lines only, and ends every run normally.\<close>

lemma webhookCalls_append_logs:
  "webhookCalls (tr @ [Log x]) = webhookCalls tr"
  "webhookCalls (tr @ [Log x, Log y]) = webhookCalls tr"
  by (simp_all add: webhookCalls_def)

lemma onFormSubmit_trigger_catch:
  "webhookCalls (fst (onFormSubmit_trigger h e)) = webhookCalls (fst (onFormSubmit_trigger_try h e))"
  "snd (onFormSubmit_trigger h e) = Inr ()"
  by (auto simp: onFormSubmit_trigger_def webhookCalls_append_logs split: prod.split sum.split)

lemma onFormSubmit_part000_catch:
  "webhookCalls (fst (onFormSubmit_part000 h e)) = webhookCalls (fst (onFormSubmit_part000_try h e))"
  "snd (onFormSubmit_part000 h e) = Inr ()"
  by (auto simp: onFormSubmit_part000_def webhookCalls_append_logs split: prod.split sum.split)

lemma onFormSubmit_part001_catch:
  "webhookCalls (fst (onFormSubmit_part001 h e)) = webhookCalls (fst (onFormSubmit_part001_try h e))"
  "snd (onFormSubmit_part001 h e) = Inr ()"
  by (auto simp: onFormSubmit_part001_def webhookCalls_append_logs split: prod.split sum.split)

lemma blank_email_trigger:
  "blankCell v \<Longrightarrow>
   (if truthy v then JStr (toLowerCase (trim (js_String h v))) else JStr []) = JStr []"
  by (cases v) (simp_all add: toLowerCase_Nil)

lemma blank_email_part001:
  "blankCell v \<Longrightarrow> toLowerCase (trim (js_String h (js_or v (JStr [])))) = []"
  by (cases v) (simp_all add: js_or_def toLowerCase_Nil trim_Nil)

lemma emailMissing_empty: "email data = JStr [] \<Longrightarrow> emailMissing data = Inr True"
  by (simp add: emailMissing_def)

text \<open>
  C1. When the email cell of the row read by \<open>onFormSubmit\<close> is absent, empty or white
  space only, the handler makes no webhook call and returns normally. Shown for the
  14-column script and for the second script of part_001.
\<close>

theorem blank_email_never_dispatched:
  "(getSheetByName ss SHEET_NAME_trigger = Some sh \<and> rowDataOf sh = Inr rowData
      \<and> blankCell (js_index rowData (EMAIL COLUMN_MAPPING_trigger - 1))
    \<longrightarrow> webhookCalls (fst (onFormSubmit_trigger h (Some \<lparr> source = Some ss \<rparr>))) = []
        \<and> snd (onFormSubmit_trigger h (Some \<lparr> source = Some ss \<rparr>)) = Inr ())
   \<and> (getSheetByName ss SHEET_NAME_part001 = Some sh \<and> rowDataOf sh = Inr rowData
      \<and> blankCell (js_index rowData (EMAIL COLUMN_MAPPING_part001 - 1))
    \<longrightarrow> webhookCalls (fst (onFormSubmit_part001 h (Some \<lparr> source = Some ss \<rparr>))) = []
        \<and> snd (onFormSubmit_part001 h (Some \<lparr> source = Some ss \<rparr>)) = Inr ())"
proof (intro conjI impI)
  assume a: "getSheetByName ss SHEET_NAME_trigger = Some sh \<and> rowDataOf sh = Inr rowData
      \<and> blankCell (js_index rowData (EMAIL COLUMN_MAPPING_trigger - 1))"
  then have b: "blankCell (js_index rowData 2)"
    by (simp add: COLUMN_MAPPING_trigger_def)
  have "webhookCalls (fst (onFormSubmit_trigger_try h (Some \<lparr> source = Some ss \<rparr>))) = []"
  proof (cases "timestamp_trigger h rowData")
    case (Inl e)
    then show ?thesis
      using a unfolding onFormSubmit_trigger_try_def rowDataOf_def
      by (simp add: getFormData_trigger_Inl webhookCalls_def)
  next
    case (Inr ts)
    then show ?thesis
      using a unfolding onFormSubmit_trigger_try_def rowDataOf_def
      by (simp add: getFormData_trigger_Inr emailMissing_empty blank_email_trigger [OF b]
          webhookCalls_def)
  qed
  then show "webhookCalls (fst (onFormSubmit_trigger h (Some \<lparr> source = Some ss \<rparr>))) = []"
    by (simp add: onFormSubmit_trigger_catch)
  show "snd (onFormSubmit_trigger h (Some \<lparr> source = Some ss \<rparr>)) = Inr ()"
    by (simp add: onFormSubmit_trigger_catch)
next
  assume a: "getSheetByName ss SHEET_NAME_part001 = Some sh \<and> rowDataOf sh = Inr rowData
      \<and> blankCell (js_index rowData (EMAIL COLUMN_MAPPING_part001 - 1))"
  then have b: "blankCell (js_index rowData 1)"
    by (simp add: COLUMN_MAPPING_part001_def)
  have "webhookCalls (fst (onFormSubmit_part001_try h (Some \<lparr> source = Some ss \<rparr>))) = []"
  proof (cases "timestamp_part001 h rowData")
    case (Inl e)
    then show ?thesis
      using a unfolding onFormSubmit_part001_try_def rowDataOf_def
      by (simp add: getFormData_part001_Inl webhookCalls_def)
  next
    case (Inr ts)
    then show ?thesis
      using a unfolding onFormSubmit_part001_try_def rowDataOf_def
      by (simp add: getFormData_part001_Inr emailMissing_empty blank_email_part001 [OF b]
          webhookCalls_def)
  qed
  then show "webhookCalls (fst (onFormSubmit_part001 h (Some \<lparr> source = Some ss \<rparr>))) = []"
    by (simp add: onFormSubmit_part001_catch)
  show "snd (onFormSubmit_part001 h (Some \<lparr> source = Some ss \<rparr>)) = Inr ()"
    by (simp add: onFormSubmit_part001_catch)
qed

theorem blank_email_never_dispatched_witness:
  "getSheetByName [(''leads'', [[JStr ''Name'', JStr ''Email''], [JStr ''Bob'', JStr ''   '']])]
      SHEET_NAME_part001 = Some [[JStr ''Name'', JStr ''Email''], [JStr ''Bob'', JStr ''   '']]
   \<and> rowDataOf [[JStr ''Name'', JStr ''Email''], [JStr ''Bob'', JStr ''   '']]
       = Inr [JStr ''Bob'', JStr ''   '']
   \<and> blankCell (js_index [JStr ''Bob'', JStr ''   ''] (EMAIL COLUMN_MAPPING_part001 - 1))
   \<and> webhookCalls (fst (onFormSubmit_part001 exampleHost (Some \<lparr> source = Some
        [(''leads'', [[JStr ''Name'', JStr ''Email''], [JStr ''Bob'', JStr ''   '']])] \<rparr>))) = []
   \<and> snd (onFormSubmit_part001 exampleHost (Some \<lparr> source = Some
        [(''leads'', [[JStr ''Name'', JStr ''Email''], [JStr ''Bob'', JStr ''   '']])] \<rparr>)) = Inr ()
   \<and> getSheetByName [(''Form Responses 1'', [[JDate 0, JStr ''Bob'']])] SHEET_NAME_trigger
       = Some [[JDate 0, JStr ''Bob'']]
   \<and> rowDataOf [[JDate 0, JStr ''Bob'']] = Inr [JDate 0, JStr ''Bob'']
   \<and> blankCell (js_index [JDate 0, JStr ''Bob''] (EMAIL COLUMN_MAPPING_trigger - 1))
   \<and> webhookCalls (fst (onFormSubmit_trigger exampleHost (Some \<lparr> source = Some
        [(''Form Responses 1'', [[JDate 0, JStr ''Bob'']])] \<rparr>))) = []
   \<and> snd (onFormSubmit_trigger exampleHost (Some \<lparr> source = Some
        [(''Form Responses 1'', [[JDate 0, JStr ''Bob'']])] \<rparr>)) = Inr ()"
proof -
  have a: "getSheetByName [(''leads'', [[JStr ''Name'', JStr ''Email''], [JStr ''Bob'', JStr ''   '']])]
      SHEET_NAME_part001 = Some [[JStr ''Name'', JStr ''Email''], [JStr ''Bob'', JStr ''   '']]"
    by (simp add: getSheetByName_def SHEET_NAME_part001_def)
  have b: "rowDataOf [[JStr ''Name'', JStr ''Email''], [JStr ''Bob'', JStr ''   '']]
       = Inr [JStr ''Bob'', JStr ''   '']"
    by code_simp
  have c: "blankCell (js_index [JStr ''Bob'', JStr ''   ''] (EMAIL COLUMN_MAPPING_part001 - 1))"
    by code_simp
  have a': "getSheetByName [(''Form Responses 1'', [[JDate 0, JStr ''Bob'']])] SHEET_NAME_trigger
       = Some [[JDate 0, JStr ''Bob'']]"
    by (simp add: getSheetByName_def SHEET_NAME_trigger_def)
  have b': "rowDataOf [[JDate 0, JStr ''Bob'']] = Inr [JDate 0, JStr ''Bob'']"
    by code_simp
  have c': "blankCell (js_index [JDate 0, JStr ''Bob''] (EMAIL COLUMN_MAPPING_trigger - 1))"
    by code_simp
  note d = blank_email_never_dispatched [of
        "[(''leads'', [[JStr ''Name'', JStr ''Email''], [JStr ''Bob'', JStr ''   '']])]"
        "[[JStr ''Name'', JStr ''Email''], [JStr ''Bob'', JStr ''   '']]"
        "[JStr ''Bob'', JStr ''   '']" exampleHost, THEN conjunct2, rule_format, OF conjI [OF a conjI [OF b c]]]
  note d' = blank_email_never_dispatched [of
        "[(''Form Responses 1'', [[JDate 0, JStr ''Bob'']])]"
        "[[JDate 0, JStr ''Bob'']]" "[JDate 0, JStr ''Bob'']" exampleHost,
        THEN conjunct1, rule_format, OF conjI [OF a' conjI [OF b' c']]]
  show ?thesis
    by (intro conjI a b c a' b' c' d [THEN conjunct1] d [THEN conjunct2]
        d' [THEN conjunct1] d' [THEN conjunct2])
qed

section \<open>The email is trimmed and in lower case\<close>



section \<open>The outcome of the HTTP call\<close>


text \<open>
  C4. When the HTTP call returns a response, \<open>sendToWebhook\<close> returns an object whose
  \<open>success\<close> is true exactly when the status code is at least 200 and below 300, with
  the status code in either case; the body of the response is its \<open>response\<close> on
  success and its \<open>error\<close> otherwise.
\<close>

theorem http_response_mapping:
  "fetch h url (JSON_stringify (payload data)) = Inr (code, text) \<Longrightarrow>
   \<exists>r. snd (sendToWebhook h url data) = Inr r
     \<and> success r = (200 \<le> code \<and> code < 300)
     \<and> statusCode r = JNum code
     \<and> (if 200 \<le> code \<and> code < 300
        then response r = JStr text \<and> error r = Undefined
        else error r = JStr text \<and> response r = Undefined)"
proof -
  assume f: "fetch h url (JSON_stringify (payload data)) = Inr (code, text)"
  show ?thesis
  proof (cases "200 \<le> code \<and> code < 300")
    case True
    then have "snd (sendToWebhook h url data)
        = Inr \<lparr> success = True, statusCode = JNum code, response = JStr text,
                error = Undefined \<rparr>"
      using f by (simp add: sendToWebhook_def sendToWebhook_try_def)
    with True show ?thesis by simp
  next
    case False
    then have "snd (sendToWebhook h url data)
        = Inr \<lparr> success = False, statusCode = JNum code, response = Undefined,
                error = JStr text \<rparr>"
      using f by (simp add: sendToWebhook_def sendToWebhook_try_def)
    with False show ?thesis by simp
  qed
qed

theorem http_response_mapping_witness:
  "fetch exampleHost WEBHOOK_URL_trigger (JSON_stringify (payload (testData exampleHost)))
     = Inr (200, ''OK'')
   \<and> snd (sendToWebhook exampleHost WEBHOOK_URL_trigger (testData exampleHost))
     = Inr \<lparr> success = True, statusCode = JNum 200, response = JStr ''OK'',
             error = Undefined \<rparr>
   \<and> fetch (exampleHost \<lparr> fetch := \<lambda>url body. Inr (500, ''Internal Error'') \<rparr>)
        WEBHOOK_URL_trigger (JSON_stringify (payload (testData exampleHost)))
     = Inr (500, ''Internal Error'')
   \<and> snd (sendToWebhook (exampleHost \<lparr> fetch := \<lambda>url body. Inr (500, ''Internal Error'') \<rparr>)
          WEBHOOK_URL_trigger (testData exampleHost))
     = Inr \<lparr> success = False, statusCode = JNum 500, response = Undefined,
             error = JStr ''Internal Error'' \<rparr>"
proof -
  let ?h = "exampleHost \<lparr> fetch := \<lambda>url body. Inr (500, ''Internal Error'') \<rparr>"
  let ?d = "testData exampleHost"
  have f: "fetch exampleHost WEBHOOK_URL_trigger (JSON_stringify (payload ?d)) = Inr (200, ''OK'')"
    by (simp add: exampleHost_def)
  have g: "fetch ?h WEBHOOK_URL_trigger (JSON_stringify (payload ?d))
             = Inr (500, ''Internal Error'')"
    by simp
  from http_response_mapping [OF f] obtain r where
    r: "snd (sendToWebhook exampleHost WEBHOOK_URL_trigger ?d) = Inr r"
       "success r" "statusCode r = JNum 200" "response r = JStr ''OK''"
       "error r = Undefined"
    by auto
  from http_response_mapping [OF g] obtain q where
    q: "snd (sendToWebhook ?h WEBHOOK_URL_trigger ?d) = Inr q"
       "\<not> success q" "statusCode q = JNum 500" "response q = Undefined"
       "error q = JStr ''Internal Error''"
    by auto
  have "r = \<lparr> success = True, statusCode = JNum 200, response = JStr ''OK'',
             error = Undefined \<rparr>"
    using r by (cases r) simp
  moreover have "q = \<lparr> success = False, statusCode = JNum 500, response = Undefined,
             error = JStr ''Internal Error'' \<rparr>"
    using q by (cases q) simp
  ultimately show ?thesis
    using f g r(1) q(1) by simp
qed

lemma error_name_string_nonempty: "error_name_string n \<noteq> []"
  by (cases n) simp_all

text \<open>
  C5. \<open>sendToWebhook\<close> always returns an object and never throws. When the HTTP call
  itself throws (endpoint unreachable, DNS failure, timeout), the object has
  \<open>success = false\<close>, no status code, and as \<open>error\<close> the non-empty string of the
  exception.
\<close>

theorem transport_failure_caught:
  "(\<exists>r. snd (sendToWebhook h url data) = Inr r)
   \<and> (fetch h url (JSON_stringify (payload data)) = Inl err \<longrightarrow>
        snd (sendToWebhook h url data)
          = Inr \<lparr> success = False, statusCode = Undefined, response = Undefined,
                  error = JStr (error_toString err) \<rparr>
        \<and> error_toString err \<noteq> [])"
proof (intro conjI impI)
  show "\<exists>r. snd (sendToWebhook h url data) = Inr r"
    by (simp add: sendToWebhook_def sendToWebhook_try_def Let_def split: sum.split prod.split)
next
  assume "fetch h url (JSON_stringify (payload data)) = Inl err"
  then show "snd (sendToWebhook h url data)
          = Inr \<lparr> success = False, statusCode = Undefined, response = Undefined,
                  error = JStr (error_toString err) \<rparr>"
    by (simp add: sendToWebhook_def sendToWebhook_try_def Let_def)
next
  show "error_toString err \<noteq> []"
    by (cases err) (simp add: error_name_string_nonempty)
qed

theorem transport_failure_caught_witness:
  "fetch (exampleHost \<lparr> fetch := \<lambda>url body. Inl (JsError Exception ''Address unavailable'') \<rparr>)
      WEBHOOK_URL_part000 (JSON_stringify (payload (testData exampleHost)))
     = Inl (JsError Exception ''Address unavailable'')
   \<and> snd (sendToWebhook
           (exampleHost \<lparr> fetch := \<lambda>url body. Inl (JsError Exception ''Address unavailable'') \<rparr>)
           WEBHOOK_URL_part000 (testData exampleHost))
     = Inr \<lparr> success = False, statusCode = Undefined, response = Undefined,
             error = JStr ''Exception: Address unavailable'' \<rparr>"
proof -
  let ?h = "exampleHost \<lparr> fetch := \<lambda>url body. Inl (JsError Exception ''Address unavailable'') \<rparr>"
  have f: "fetch ?h WEBHOOK_URL_part000 (JSON_stringify (payload (testData exampleHost)))
             = Inl (JsError Exception ''Address unavailable'')"
    by simp
  show ?thesis
    using f transport_failure_caught [of ?h WEBHOOK_URL_part000 "testData exampleHost"
        "JsError Exception ''Address unavailable''"]
    by simp
qed

section \<open>A run without an event\<close>

text \<open>
  C8, as stated, fails. The 14-column script does not detect a missing event: its
  \<open>try\<close> block throws a TypeError at \<open>e.source\<close>, and the \<open>catch\<close> reports it
  by the same line as any other fault, such as the exception of \<open>getRange\<close> on an empty
  sheet.
\<close>

theorem missing_event_counterexample:
  "onFormSubmit_trigger_try exampleHost None
     = ([], Inl (JsError TypeError ''Cannot read properties of undefined (reading 'source')''))
   \<and> onFormSubmit_trigger exampleHost None
     = ([Log ''Error in onFormSubmit: TypeError: Cannot read properties of undefined (reading 'source')''],
        Inr ())
   \<and> onFormSubmit_trigger exampleHost (Some \<lparr> source = Some [(''Form Responses 1'', [])] \<rparr>)
     = ([Log ''Error in onFormSubmit: Exception: The starting row of the range is too small.''],
        Inr ())"
proof -
  have a: "onFormSubmit_trigger_try exampleHost None
     = ([], Inl (JsError TypeError ''Cannot read properties of undefined (reading 'source')''))"
    by (simp add: onFormSubmit_trigger_try_def)
  have b: "onFormSubmit_trigger_try exampleHost
             (Some \<lparr> source = Some [(''Form Responses 1'', [])] \<rparr>)
     = ([], Inl (JsError Exception ''The starting row of the range is too small.''))"
    by (simp add: onFormSubmit_trigger_try_def getSheetByName_def SHEET_NAME_trigger_def
        getRangeValues_def getLastRow_def andThen_def)
  show ?thesis
    by (simp add: onFormSubmit_trigger_def a b)
qed

text \<open>
  C8, amended. Called without an event, or with an event that has no \<open>source\<close>,
  part_000's \<open>onFormSubmit\<close> detects it: it writes that the function must be triggered
  by a form submission and returns, with no webhook call. The 14-column script has no such
  check: reading \<open>e.source\<close> (or calling a method of the missing source) throws a
  TypeError, which the handler's \<open>catch\<close> writes to the log as an error in
  \<open>onFormSubmit\<close>; it makes no webhook call either and no fault leaves the handler.
\<close>

theorem missing_event_outcome:
  "(case e of None \<Rightarrow> None | Some ev \<Rightarrow> source ev) = None \<Longrightarrow>
     onFormSubmit_part000_try h e
       = ([Log ''Error: This function must be triggered by a form submission.'',
           Log ''To test manually, use testLastRow() or testWebhook() functions instead.''],
          Inr ())
     \<and> onFormSubmit_part000 h e
       = ([Log ''Error: This function must be triggered by a form submission.'',
           Log ''To test manually, use testLastRow() or testWebhook() functions instead.''],
          Inr ())
     \<and> webhookCalls (fst (onFormSubmit_part000 h e)) = []
     \<and> (\<exists>m. onFormSubmit_trigger_try h e = ([], Inl (JsError TypeError m))
           \<and> onFormSubmit_trigger h e
             = ([Log (''Error in onFormSubmit: '' @ error_toString (JsError TypeError m))],
                Inr ()))
     \<and> webhookCalls (fst (onFormSubmit_trigger h e)) = []"
proof -
  assume a: "(case e of None \<Rightarrow> None | Some ev \<Rightarrow> source ev) = None"
  have p: "onFormSubmit_part000_try h e
       = ([Log ''Error: This function must be triggered by a form submission.'',
           Log ''To test manually, use testLastRow() or testWebhook() functions instead.''],
          Inr ())"
    using a by (simp add: onFormSubmit_part000_try_def)
  have q: "\<exists>m. onFormSubmit_trigger_try h e = ([], Inl (JsError TypeError m))"
    using a by (cases e) (simp_all add: onFormSubmit_trigger_try_def)
  then obtain m where m: "onFormSubmit_trigger_try h e = ([], Inl (JsError TypeError m))"
    by blast
  have r: "onFormSubmit_trigger h e
             = ([Log (''Error in onFormSubmit: '' @ error_toString (JsError TypeError m))],
                Inr ())"
    unfolding onFormSubmit_trigger_def m by simp
  have s: "onFormSubmit_part000 h e
       = ([Log ''Error: This function must be triggered by a form submission.'',
           Log ''To test manually, use testLastRow() or testWebhook() functions instead.''],
          Inr ())"
    unfolding onFormSubmit_part000_def p by simp
  have w: "webhookCalls (fst (onFormSubmit_part000 h e)) = []"
    "webhookCalls (fst (onFormSubmit_trigger h e)) = []"
    unfolding s r by (simp_all add: webhookCalls_def)
  from m r have "\<exists>m. onFormSubmit_trigger_try h e = ([], Inl (JsError TypeError m))
           \<and> onFormSubmit_trigger h e
             = ([Log (''Error in onFormSubmit: '' @ error_toString (JsError TypeError m))],
                Inr ())"
    by (intro exI conjI)
  with p s w show ?thesis
    by (intro conjI)
qed

theorem missing_event_outcome_witness:
  "(case None of None \<Rightarrow> None | Some ev \<Rightarrow> source ev) = None
   \<and> onFormSubmit_part000 exampleHost None
      = ([Log ''Error: This function must be triggered by a form submission.'',
          Log ''To test manually, use testLastRow() or testWebhook() functions instead.''],
         Inr ())
   \<and> webhookCalls (fst (onFormSubmit_part000 exampleHost None)) = []
   \<and> (case Some \<lparr> source = None \<rparr> of None \<Rightarrow> None | Some ev \<Rightarrow> source ev) = None
   \<and> webhookCalls (fst (onFormSubmit_trigger exampleHost (Some \<lparr> source = None \<rparr>))) = []
   \<and> snd (onFormSubmit_trigger exampleHost (Some \<lparr> source = None \<rparr>)) = Inr ()"
proof -
  have a: "(case None of None \<Rightarrow> None | Some ev \<Rightarrow> source ev) = (None :: spreadsheet option)"
    by simp
  have b: "(case Some \<lparr> source = None \<rparr> of None \<Rightarrow> None | Some ev \<Rightarrow> source ev) = None"
    by simp
  note x = missing_event_outcome [OF a, of exampleHost]
  note y = missing_event_outcome [OF b, of exampleHost]
  have 1: "onFormSubmit_part000 exampleHost None
      = ([Log ''Error: This function must be triggered by a form submission.'',
          Log ''To test manually, use testLastRow() or testWebhook() functions instead.''],
         Inr ())"
    using x by (elim conjE)
  have 2: "webhookCalls (fst (onFormSubmit_part000 exampleHost None)) = []"
    using x by (elim conjE)
  have 3: "webhookCalls (fst (onFormSubmit_trigger exampleHost (Some \<lparr> source = None \<rparr>))) = []"
    using y by (elim conjE)
  have 4: "snd (onFormSubmit_trigger exampleHost (Some \<lparr> source = None \<rparr>)) = Inr ()"
    using y by (elim conjE exE) simp
  show ?thesis
    using a by (intro conjI 1 2 3 4 b) simp
qed

section \<open>attendance is an alias of response\<close>












lemma trim_examples:
  "trim ''Yes, I'll attend'' = ''Yes, I'll attend''"
  "trim ''  '' = []"
  "trim '' new '' = ''new''"
  "toLowerCase (trim ''en'') = ''en''"
  by code_simp+


section \<open>The timestamp\<close>

text \<open>
  C3, as stated, fails. In the 14-column script a row whose Timestamp cell and Date Added
  cell hold different dates gets the Timestamp's date, not the Date Added's. In the second
  script of part_001 a Date Added cell holding the non-empty string of two spaces gives the
  clock's time, not that string.
\<close>

theorem timestamp_claim_counterexample:
  "js_index formsRow (DATE_ADDED COLUMN_MAPPING_trigger - 1) = JDate 86400000
   \<and> toISOString 86400000 = ''1970-01-02T00:00:00.000Z''
   \<and> map_sum id timestamp (getFormData_trigger exampleHost formsRow)
       = Inr (JStr ''1970-01-01T00:00:00.000Z'')
   \<and> js_index blankDateRow (DATE_ADDED COLUMN_MAPPING_part001 - 1) = JStr ''  ''
   \<and> map_sum id timestamp (getFormData_part001 exampleHost blankDateRow)
       = Inr (JStr ''2023-11-14T22:13:20.000Z'')"
proof -
  have a: "toISOString 86400000 = ''1970-01-02T00:00:00.000Z''"
    "toISOString 0 = ''1970-01-01T00:00:00.000Z''"
    "toISOString 1700000000000 = ''2023-11-14T22:13:20.000Z''"
    by code_simp+
  show ?thesis
    by (simp add: getFormData_trigger_eq getFormData_part001_eq formsRow_def blankDateRow_def js_index_def
        COLUMN_MAPPING_trigger_def COLUMN_MAPPING_part001_def exampleHost_def a trim_examples)
qed

text \<open>
  C3, amended, for a row that holds no invalid date. In the second script of part_001 the timestamp is the ISO form of the Date
  Added cell when that is a date, the cell's string unchanged when it is a string with a
  character that is not white space, and the ISO form of the clock's time otherwise. In the
  14-column script the value is the Timestamp cell when truthy, else the Date Added cell when
  truthy, else the clock's time; a date is written in ISO form and any other value is kept.
\<close>

theorem timestamp_resolution:
  assumes "JInvalidDate \<notin> set rowData"
  shows "(\<exists>d. getFormData_part001 h rowData = Inr d
      \<and> (\<forall>t. js_index rowData (DATE_ADDED COLUMN_MAPPING_part001 - 1) = JDate t
            \<longrightarrow> timestamp d = JStr (toISOString t))
      \<and> (\<forall>s. js_index rowData (DATE_ADDED COLUMN_MAPPING_part001 - 1) = JStr s \<and> trim s \<noteq> []
            \<longrightarrow> timestamp d = JStr s)
      \<and> (\<not> isDate (js_index rowData (DATE_ADDED COLUMN_MAPPING_part001 - 1))
          \<and> (\<forall>s. js_index rowData (DATE_ADDED COLUMN_MAPPING_part001 - 1) = JStr s
                 \<longrightarrow> trim s = [])
            \<longrightarrow> timestamp d = JStr (toISOString (now h))))
   \<and> (\<exists>d. getFormData_trigger h rowData = Inr d
      \<and> (truthy (js_index rowData (TIMESTAMP COLUMN_MAPPING_trigger - 1))
            \<longrightarrow> timestamp d = formatIfDate (js_index rowData (TIMESTAMP COLUMN_MAPPING_trigger - 1)))
      \<and> (\<not> truthy (js_index rowData (TIMESTAMP COLUMN_MAPPING_trigger - 1))
          \<and> truthy (js_index rowData (DATE_ADDED COLUMN_MAPPING_trigger - 1))
            \<longrightarrow> timestamp d = formatIfDate (js_index rowData (DATE_ADDED COLUMN_MAPPING_trigger - 1)))
      \<and> (\<not> truthy (js_index rowData (TIMESTAMP COLUMN_MAPPING_trigger - 1))
          \<and> \<not> truthy (js_index rowData (DATE_ADDED COLUMN_MAPPING_trigger - 1))
            \<longrightarrow> timestamp d = JStr (toISOString (now h))))"
proof (intro conjI)
  show "\<exists>d. getFormData_part001 h rowData = Inr d
      \<and> (\<forall>t. js_index rowData (DATE_ADDED COLUMN_MAPPING_part001 - 1) = JDate t
            \<longrightarrow> timestamp d = JStr (toISOString t))
      \<and> (\<forall>s. js_index rowData (DATE_ADDED COLUMN_MAPPING_part001 - 1) = JStr s \<and> trim s \<noteq> []
            \<longrightarrow> timestamp d = JStr s)
      \<and> (\<not> isDate (js_index rowData (DATE_ADDED COLUMN_MAPPING_part001 - 1))
          \<and> (\<forall>s. js_index rowData (DATE_ADDED COLUMN_MAPPING_part001 - 1) = JStr s
                 \<longrightarrow> trim s = [])
            \<longrightarrow> timestamp d = JStr (toISOString (now h)))"
    using assms js_index_valid [OF assms, of 5]
    by (cases "js_index rowData 5")
      (simp_all add: getFormData_part001_eq COLUMN_MAPPING_part001_def)
next
  show "\<exists>d. getFormData_trigger h rowData = Inr d
      \<and> (truthy (js_index rowData (TIMESTAMP COLUMN_MAPPING_trigger - 1))
            \<longrightarrow> timestamp d = formatIfDate (js_index rowData (TIMESTAMP COLUMN_MAPPING_trigger - 1)))
      \<and> (\<not> truthy (js_index rowData (TIMESTAMP COLUMN_MAPPING_trigger - 1))
          \<and> truthy (js_index rowData (DATE_ADDED COLUMN_MAPPING_trigger - 1))
            \<longrightarrow> timestamp d = formatIfDate (js_index rowData (DATE_ADDED COLUMN_MAPPING_trigger - 1)))
      \<and> (\<not> truthy (js_index rowData (TIMESTAMP COLUMN_MAPPING_trigger - 1))
          \<and> \<not> truthy (js_index rowData (DATE_ADDED COLUMN_MAPPING_trigger - 1))
            \<longrightarrow> timestamp d = JStr (toISOString (now h)))"
    using assms by (simp add: getFormData_trigger_eq COLUMN_MAPPING_trigger_def)
qed

theorem timestamp_resolution_witness:
  "JInvalidDate \<notin> set exampleRow \<and> JInvalidDate \<notin> set (tl textDateRow)
   \<and> JInvalidDate \<notin> set blankDateRow \<and> JInvalidDate \<notin> set formsRow
   \<and> JInvalidDate \<notin> set textDateRow \<and> JInvalidDate \<notin> set ([] :: jsval list)
   \<and> js_index exampleRow (DATE_ADDED COLUMN_MAPPING_part001 - 1) = JDate 0
   \<and> (\<exists>d. getFormData_part001 exampleHost exampleRow = Inr d
         \<and> timestamp d = JStr ''1970-01-01T00:00:00.000Z'')
   \<and> js_index (tl textDateRow) (DATE_ADDED COLUMN_MAPPING_part001 - 1) = JStr ''2024-01-15''
   \<and> trim ''2024-01-15'' \<noteq> []
   \<and> (\<exists>d. getFormData_part001 exampleHost (tl textDateRow) = Inr d
         \<and> timestamp d = JStr ''2024-01-15'')
   \<and> js_index blankDateRow (DATE_ADDED COLUMN_MAPPING_part001 - 1) = JStr ''  ''
   \<and> trim ''  '' = []
   \<and> (\<exists>d. getFormData_part001 exampleHost blankDateRow = Inr d
         \<and> timestamp d = JStr ''2023-11-14T22:13:20.000Z'')
   \<and> truthy (js_index formsRow (TIMESTAMP COLUMN_MAPPING_trigger - 1))
   \<and> (\<exists>d. getFormData_trigger exampleHost formsRow = Inr d
         \<and> timestamp d = JStr ''1970-01-01T00:00:00.000Z'')
   \<and> \<not> truthy (js_index textDateRow (TIMESTAMP COLUMN_MAPPING_trigger - 1))
   \<and> truthy (js_index textDateRow (DATE_ADDED COLUMN_MAPPING_trigger - 1))
   \<and> (\<exists>d. getFormData_trigger exampleHost textDateRow = Inr d
         \<and> timestamp d = JStr ''2024-01-15'')
   \<and> \<not> truthy (js_index [] (TIMESTAMP COLUMN_MAPPING_trigger - 1))
   \<and> \<not> truthy (js_index [] (DATE_ADDED COLUMN_MAPPING_trigger - 1))
   \<and> (\<exists>d. getFormData_trigger exampleHost [] = Inr d
         \<and> timestamp d = JStr ''2023-11-14T22:13:20.000Z'')"
proof -
  have iso: "toISOString 0 = ''1970-01-01T00:00:00.000Z''"
    "toISOString (now exampleHost) = ''2023-11-14T22:13:20.000Z''"
    by code_simp+
  have t: "trim ''2024-01-15'' \<noteq> []"
    by code_simp
  have v: "JInvalidDate \<notin> set exampleRow" "JInvalidDate \<notin> set (tl textDateRow)"
    "JInvalidDate \<notin> set blankDateRow" "JInvalidDate \<notin> set formsRow"
    "JInvalidDate \<notin> set textDateRow" "JInvalidDate \<notin> set ([] :: jsval list)"
    by (simp_all add: exampleRow_def textDateRow_def blankDateRow_def formsRow_def)
  have a: "js_index exampleRow (DATE_ADDED COLUMN_MAPPING_part001 - 1) = JDate 0"
    by (simp add: exampleRow_def js_index_def COLUMN_MAPPING_part001_def)
  have b: "js_index blankDateRow (DATE_ADDED COLUMN_MAPPING_part001 - 1) = JStr ''  ''"
    by (simp add: blankDateRow_def js_index_def COLUMN_MAPPING_part001_def)
  have c: "js_index formsRow (TIMESTAMP COLUMN_MAPPING_trigger - 1) = JDate 0"
    by (simp add: formsRow_def js_index_def COLUMN_MAPPING_trigger_def)
  have e: "js_index (tl textDateRow) (DATE_ADDED COLUMN_MAPPING_part001 - 1) = JStr ''2024-01-15''"
    by (simp add: textDateRow_def js_index_def COLUMN_MAPPING_part001_def)
  have f: "js_index textDateRow (TIMESTAMP COLUMN_MAPPING_trigger - 1) = JStr []"
    "js_index textDateRow (DATE_ADDED COLUMN_MAPPING_trigger - 1) = JStr ''2024-01-15''"
    by (simp_all add: textDateRow_def js_index_def COLUMN_MAPPING_trigger_def)
  have g: "js_index [] (TIMESTAMP COLUMN_MAPPING_trigger - 1) = Undefined"
    "js_index [] (DATE_ADDED COLUMN_MAPPING_trigger - 1) = Undefined"
    by (simp_all add: js_index_def)
  from timestamp_resolution [OF v(1), where h = exampleHost] a
  have 1: "\<exists>d. getFormData_part001 exampleHost exampleRow = Inr d
         \<and> timestamp d = JStr (toISOString 0)"
    by auto
  from timestamp_resolution [OF v(3), where h = exampleHost] b
  have 2: "\<exists>d. getFormData_part001 exampleHost blankDateRow = Inr d
         \<and> timestamp d = JStr (toISOString (now exampleHost))"
    by (auto simp: trim_examples)
  from timestamp_resolution [OF v(4), where h = exampleHost] c
  have 3: "\<exists>d. getFormData_trigger exampleHost formsRow = Inr d
         \<and> timestamp d = JStr (toISOString 0)"
    by auto
  from timestamp_resolution [OF v(2), where h = exampleHost] e t
  have 4: "\<exists>d. getFormData_part001 exampleHost (tl textDateRow) = Inr d
         \<and> timestamp d = JStr ''2024-01-15''"
    by auto
  from timestamp_resolution [OF v(5), where h = exampleHost] f
  have 5: "\<exists>d. getFormData_trigger exampleHost textDateRow = Inr d
         \<and> timestamp d = JStr ''2024-01-15''"
    by auto
  from timestamp_resolution [OF v(6), where h = exampleHost] g
  have 6: "\<exists>d. getFormData_trigger exampleHost [] = Inr d
         \<and> timestamp d = JStr (toISOString (now exampleHost))"
    by auto
  show ?thesis
    using 1 2 3 4 5 6 a b c e f g t v by (simp add: iso trim_examples)
qed

section \<open>The other fields\<close>

lemma normalized_empty: "\<not> truthy v \<Longrightarrow> normalized h v [] = []"
  by (simp add: normalized_def js_or_def trim_Nil)

lemma normalized_truthy: "truthy v \<Longrightarrow> normalized h v d = trim (js_String h v)"
  by (simp add: normalized_def js_or_def)

lemma cleaned_normalized:
  "(if truthy v then JStr (trim (js_String h v)) else JStr []) = JStr (normalized h v [])"
  by (simp add: normalized_empty normalized_truthy)

lemma cleaned_lower_normalized:
  "(if truthy v then JStr (toLowerCase (trim (js_String h v))) else JStr [])
     = JStr (toLowerCase (normalized h v []))"
  by (simp add: normalized_empty normalized_truthy toLowerCase_Nil)

text \<open>
  C7, as stated, fails. In the second script of part_001 a Language cell of two spaces
  normalizes to the empty string, not to \<open>en\<close>. In the 14-column script a Status cell
  with spaces around its text is not trimmed.
\<close>

theorem field_defaults_counterexample:
  "js_index blankDateRow (LANGUAGE COLUMN_MAPPING_part001 - 1) = JStr ''  ''
   \<and> trim ''  '' = []
   \<and> map_sum id language (getFormData_part001 exampleHost blankDateRow) = Inr (JStr [])
   \<and> js_index formsRow (STATUS COLUMN_MAPPING_trigger - 1) = JStr ''  Sent ''
   \<and> trim ''  Sent '' = ''Sent''
   \<and> map_sum id status (getFormData_trigger exampleHost formsRow) = Inr (JStr ''  Sent '')"
proof -
  have t: "trim ''  Sent '' = ''Sent''"
    by code_simp
  show ?thesis
    by (simp add: getFormData_trigger_eq getFormData_part001_eq formsRow_def blankDateRow_def
        js_index_def js_or_def COLUMN_MAPPING_trigger_def COLUMN_MAPPING_part001_def
        trim_examples toLowerCase_Nil t)
qed

text \<open>
  C7, amended, for a row that holds no invalid date. Every field other than the timestamp takes its default (\<open>en\<close> for the
  language, the empty string otherwise) when its cell is falsy, before any trimming. In the
  second script of part_001 the value is then made a string and trimmed (email and language
  also in lower case), so a cell of white space normalizes to the empty string. In the
  14-column script only name, email and phone are made strings and trimmed (email in lower
  case); language, status, response, responseDate and comments keep the value of the cell.
\<close>

theorem field_defaults_before_trim:
  assumes "JInvalidDate \<notin> set rowData"
  shows "(\<exists>d. getFormData_part001 h rowData = Inr d
      \<and> name d = JStr (normalized h (js_index rowData (NAME COLUMN_MAPPING_part001 - 1)) [])
      \<and> email d = JStr (toLowerCase
            (normalized h (js_index rowData (EMAIL COLUMN_MAPPING_part001 - 1)) []))
      \<and> phone d = JStr (normalized h (js_index rowData (PHONE COLUMN_MAPPING_part001 - 1)) [])
      \<and> language d = JStr (toLowerCase
            (normalized h (js_index rowData (LANGUAGE COLUMN_MAPPING_part001 - 1)) ''en''))
      \<and> status d = JStr (normalized h (js_index rowData (STATUS COLUMN_MAPPING_part001 - 1)) [])
      \<and> formData.response d
          = JStr (normalized h (js_index rowData (RESPONSE COLUMN_MAPPING_part001 - 1)) [])
      \<and> responseDate d
          = JStr (normalized h (js_index rowData (RESPONSE_DATE COLUMN_MAPPING_part001 - 1)) [])
      \<and> comments d
          = JStr (normalized h (js_index rowData (COMMENTS COLUMN_MAPPING_part001 - 1)) []))
   \<and> (\<exists>d. getFormData_trigger h rowData = Inr d
      \<and> name d = JStr (normalized h (js_index rowData (NAME COLUMN_MAPPING_trigger - 1)) [])
      \<and> email d = JStr (toLowerCase
            (normalized h (js_index rowData (EMAIL COLUMN_MAPPING_trigger - 1)) []))
      \<and> phone d = JStr (normalized h (js_index rowData (PHONE COLUMN_MAPPING_trigger - 1)) [])
      \<and> language d
          = js_or (js_index rowData (LANGUAGE COLUMN_MAPPING_trigger - 1)) (JStr ''en'')
      \<and> status d = js_or (js_index rowData (STATUS COLUMN_MAPPING_trigger - 1)) (JStr [])
      \<and> formData.response d
          = js_or (js_index rowData (RESPONSE COLUMN_MAPPING_trigger - 1)) (JStr [])
      \<and> responseDate d
          = js_or (js_index rowData (RESPONSE_DATE COLUMN_MAPPING_trigger - 1)) (JStr [])
      \<and> comments d = js_or (js_index rowData (COMMENTS COLUMN_MAPPING_trigger - 1)) (JStr []))
   \<and> (\<forall>v. \<not> truthy v \<longrightarrow> normalized h v [] = [] \<and> normalized h v ''en'' = ''en'')
   \<and> (\<forall>v d. truthy v \<longrightarrow> normalized h v d = trim (js_String h v))"
proof (intro conjI allI impI)
  show "\<exists>d. getFormData_part001 h rowData = Inr d
      \<and> name d = JStr (normalized h (js_index rowData (NAME COLUMN_MAPPING_part001 - 1)) [])
      \<and> email d = JStr (toLowerCase
            (normalized h (js_index rowData (EMAIL COLUMN_MAPPING_part001 - 1)) []))
      \<and> phone d = JStr (normalized h (js_index rowData (PHONE COLUMN_MAPPING_part001 - 1)) [])
      \<and> language d = JStr (toLowerCase
            (normalized h (js_index rowData (LANGUAGE COLUMN_MAPPING_part001 - 1)) ''en''))
      \<and> status d = JStr (normalized h (js_index rowData (STATUS COLUMN_MAPPING_part001 - 1)) [])
      \<and> formData.response d
          = JStr (normalized h (js_index rowData (RESPONSE COLUMN_MAPPING_part001 - 1)) [])
      \<and> responseDate d
          = JStr (normalized h (js_index rowData (RESPONSE_DATE COLUMN_MAPPING_part001 - 1)) [])
      \<and> comments d
          = JStr (normalized h (js_index rowData (COMMENTS COLUMN_MAPPING_part001 - 1)) [])"
    using assms by (simp add: getFormData_part001_eq COLUMN_MAPPING_part001_def normalized_def)
next
  show "\<exists>d. getFormData_trigger h rowData = Inr d
      \<and> name d = JStr (normalized h (js_index rowData (NAME COLUMN_MAPPING_trigger - 1)) [])
      \<and> email d = JStr (toLowerCase
            (normalized h (js_index rowData (EMAIL COLUMN_MAPPING_trigger - 1)) []))
      \<and> phone d = JStr (normalized h (js_index rowData (PHONE COLUMN_MAPPING_trigger - 1)) [])
      \<and> language d
          = js_or (js_index rowData (LANGUAGE COLUMN_MAPPING_trigger - 1)) (JStr ''en'')
      \<and> status d = js_or (js_index rowData (STATUS COLUMN_MAPPING_trigger - 1)) (JStr [])
      \<and> formData.response d
          = js_or (js_index rowData (RESPONSE COLUMN_MAPPING_trigger - 1)) (JStr [])
      \<and> responseDate d
          = js_or (js_index rowData (RESPONSE_DATE COLUMN_MAPPING_trigger - 1)) (JStr [])
      \<and> comments d = js_or (js_index rowData (COMMENTS COLUMN_MAPPING_trigger - 1)) (JStr [])"
    using assms
    by (simp add: getFormData_trigger_eq COLUMN_MAPPING_trigger_def Let_def
        cleaned_normalized cleaned_lower_normalized)
next
  fix v assume "\<not> truthy v"
  then show "normalized h v [] = []" by (rule normalized_empty)
next
  fix v assume "\<not> truthy v"
  then show "normalized h v ''en'' = ''en''"
    by (simp add: normalized_def js_or_def trim_def isWhiteSpace_def)
next
  fix v d assume "truthy v"
  then show "normalized h v d = trim (js_String h v)" by (rule normalized_truthy)
qed

theorem field_defaults_before_trim_witness:
  "JInvalidDate \<notin> set exampleRow \<and> JInvalidDate \<notin> set ([] :: jsval list)
   \<and> JInvalidDate \<notin> set formsRow
   \<and> (\<exists>d. getFormData_part001 exampleHost exampleRow = Inr d
       \<and> language d = JStr [] \<and> status d = JStr ''new'' \<and> phone d = JStr [])
   \<and> (\<exists>d. getFormData_part001 exampleHost [] = Inr d \<and> language d = JStr ''en'')
   \<and> (\<exists>d. getFormData_trigger exampleHost formsRow = Inr d
       \<and> language d = JStr ''AR'' \<and> status d = JStr ''  Sent '')
   \<and> \<not> truthy (JNum 0)
   \<and> normalized exampleHost (JNum 0) [] = []
   \<and> normalized exampleHost (JNum 0) ''en'' = ''en''
   \<and> truthy (JStr '' new '')
   \<and> normalized exampleHost (JStr '' new '') ''en'' = ''new''"
proof -
  have n: "normalized exampleHost (js_index exampleRow (LANGUAGE COLUMN_MAPPING_part001 - 1)) ''en''
             = []"
    "normalized exampleHost (js_index exampleRow (STATUS COLUMN_MAPPING_part001 - 1)) [] = ''new''"
    "normalized exampleHost (js_index exampleRow (PHONE COLUMN_MAPPING_part001 - 1)) [] = []"
    "toLowerCase (normalized exampleHost (js_index [] (LANGUAGE COLUMN_MAPPING_part001 - 1)) ''en'')
       = ''en''"
    by code_simp+
  have m: "js_or (js_index formsRow (LANGUAGE COLUMN_MAPPING_trigger - 1)) (JStr ''en'') = JStr ''AR''"
    "js_or (js_index formsRow (STATUS COLUMN_MAPPING_trigger - 1)) (JStr []) = JStr ''  Sent ''"
    by code_simp+
  have z: "\<not> truthy (JNum 0)" and t: "truthy (JStr '' new '')"
    by simp_all
  have v: "JInvalidDate \<notin> set exampleRow" "JInvalidDate \<notin> set ([] :: jsval list)"
    "JInvalidDate \<notin> set formsRow"
    by (simp_all add: exampleRow_def formsRow_def)
  note w = field_defaults_before_trim [OF v(2), where h = exampleHost, THEN conjunct2, THEN conjunct2]
  have 1: "normalized exampleHost (JNum 0) [] = []"
    "normalized exampleHost (JNum 0) ''en'' = ''en''"
    using w [THEN conjunct1, rule_format, OF z] by simp_all
  have 2: "normalized exampleHost (JStr '' new '') ''en'' = ''new''"
    using w [THEN conjunct2, rule_format, OF t, of "''en''"] by (simp add: trim_examples)
  have 3: "(\<exists>d. getFormData_part001 exampleHost exampleRow = Inr d
       \<and> language d = JStr [] \<and> status d = JStr ''new'' \<and> phone d = JStr [])
   \<and> (\<exists>d. getFormData_part001 exampleHost [] = Inr d \<and> language d = JStr ''en'')
   \<and> (\<exists>d. getFormData_trigger exampleHost formsRow = Inr d
       \<and> language d = JStr ''AR'' \<and> status d = JStr ''  Sent '')"
    using field_defaults_before_trim [OF v(1), where h = exampleHost]
      field_defaults_before_trim [OF v(2), where h = exampleHost]
      field_defaults_before_trim [OF v(3), where h = exampleHost]
    unfolding n m by (auto simp: toLowerCase_Nil)
  show ?thesis
    using 1 2 3 z t v by simp
qed

section \<open>Short rows and cells of any type\<close>



















end
